theory Spec2Isabelle
  imports Main "HOL-Library.Sublist"
begin

section \<open>Values, errors and the library functions the script calls\<close>

text \<open>
  The script \<^verbatim>\<open>scripts/ladder-summarize.py\<close> works on what \<^verbatim>\<open>json.loads\<close>
  returns: \<^verbatim>\<open>None\<close>, booleans, integers, strings, lists and dictionaries. A dictionary
  is an association list read with \<open>map_of\<close>; its keys are distinct in what the parser
  returns. A string is the list of its characters as the output file holds them. JSON
  numbers with a fraction or an exponent (Python floats) are outside this model.
\<close>

datatype json =
    JNull
  | JBool bool
  | JInt int
  | JStr string
  | JArr "json list"
  | JObj "(string \<times> json) list"

datatype py_error =
    SystemExit string
  | TypeError
  | AttributeError
  | JSONDecodeError
  | FileNotFoundError
  | IsADirectoryError

text \<open>
  Library functions that the script calls and that are not part of the repository are
  parameters: \<^verbatim>\<open>json.loads\<close>, \<^verbatim>\<open>repr\<close> of a list or a dictionary, and
  \<^verbatim>\<open>str(Path(s))\<close>.
\<close>

record pylib =
  json_loads :: "string \<Rightarrow> py_error + json"
  py_repr :: "json \<Rightarrow> string"
  path_str :: "string \<Rightarrow> string"

definition ebind :: "py_error + 'a \<Rightarrow> ('a \<Rightarrow> py_error + 'b) \<Rightarrow> py_error + 'b" where
  "ebind m f = (case m of Inl e \<Rightarrow> Inl e | Inr x \<Rightarrow> f x)"

definition nl :: char where
  "nl = CHR 0x0A"

definition digit :: "nat \<Rightarrow> char" where
  "digit d = ''0123456789'' ! d"

fun str_nat :: "nat \<Rightarrow> string" where
  "str_nat n = (if n < 10 then [digit n] else str_nat (n div 10) @ [digit (n mod 10)])"

declare str_nat.simps [simp del]

definition str_int :: "int \<Rightarrow> string" where
  "str_int i = (if i < 0 then CHR ''-'' # str_nat (nat (- i)) else str_nat (nat i))"

text \<open>\<^verbatim>\<open>f'{v}'\<close>: a string is inserted as it is, \<^verbatim>\<open>None\<close> and booleans by name, an integer
  in decimal, a list or dictionary by its \<^verbatim>\<open>repr\<close>.\<close>

definition py_format :: "pylib \<Rightarrow> json \<Rightarrow> string" where
  "py_format lib v =
     (case v of
        JStr s \<Rightarrow> s
      | JNull \<Rightarrow> ''None''
      | JBool b \<Rightarrow> (if b then ''True'' else ''False'')
      | JInt i \<Rightarrow> str_int i
      | _ \<Rightarrow> py_repr lib v)"

text \<open>\<^verbatim>\<open>r.get(key, default)\<close>: only a dictionary has the method.\<close>

definition dict_get :: "(string \<times> json) list \<Rightarrow> string \<Rightarrow> json \<Rightarrow> json" where
  "dict_get kvs k d = (case map_of kvs k of None \<Rightarrow> d | Some v \<Rightarrow> v)"

definition py_get :: "json \<Rightarrow> string \<Rightarrow> json \<Rightarrow> py_error + json" where
  "py_get r k d =
     (case r of
        JObj kvs \<Rightarrow> Inr (dict_get kvs k d)
      | _ \<Rightarrow> Inl AttributeError)"

text \<open>\<^verbatim>\<open>for r in rows\<close>: a list yields its elements, a dictionary its keys, a string its
  characters; nothing else that \<^verbatim>\<open>json.loads\<close> returns is iterable.\<close>

definition py_iter :: "json \<Rightarrow> py_error + json list" where
  "py_iter v =
     (case v of
        JArr xs \<Rightarrow> Inr xs
      | JObj kvs \<Rightarrow> Inr (map (\<lambda>kv. JStr (fst kv)) kvs)
      | JStr s \<Rightarrow> Inr (map (\<lambda>c. JStr [c]) s)
      | _ \<Rightarrow> Inl TypeError)"

text \<open>Truth value of an object in \<^verbatim>\<open>if x:\<close>.\<close>

definition truthy :: "json \<Rightarrow> bool" where
  "truthy v =
     (case v of
        JNull \<Rightarrow> False
      | JBool b \<Rightarrow> b
      | JInt i \<Rightarrow> i \<noteq> 0
      | JStr s \<Rightarrow> s \<noteq> []
      | JArr xs \<Rightarrow> xs \<noteq> []
      | JObj kvs \<Rightarrow> kvs \<noteq> [])"

definition hashable :: "json \<Rightarrow> bool" where
  "hashable v = (case v of JArr _ \<Rightarrow> False | JObj _ \<Rightarrow> False | _ \<Rightarrow> True)"

text \<open>Equality of dictionary keys: \<^verbatim>\<open>True == 1\<close> and \<^verbatim>\<open>False == 0\<close>; a string is equal
  to strings only. Keys are hashable, so lists and dictionaries are never compared.\<close>

fun py_eq :: "json \<Rightarrow> json \<Rightarrow> bool" where
  "py_eq (JBool a) (JInt i) = ((if a then 1 else 0) = i)"
| "py_eq (JInt i) (JBool a) = (i = (if a then 1 else 0))"
| "py_eq a b = (a = b)"

section \<open>The counter\<close>

text \<open>\<^verbatim>\<open>collections.Counter\<close> is a dictionary from element to number of occurrences, kept
  here in insertion order. \<open>counter_add c k\<close> is \<^verbatim>\<open>c[k] = c.get(k, 0) + 1\<close>.\<close>

type_synonym counter = "(json \<times> nat) list"

fun counter_get :: "counter \<Rightarrow> json \<Rightarrow> nat \<Rightarrow> nat" where
  "counter_get [] k d = d"
| "counter_get ((k', n) # c) k d = (if py_eq k' k then n else counter_get c k d)"

fun counter_add :: "counter \<Rightarrow> json \<Rightarrow> counter" where
  "counter_add [] k = [(k, 1)]"
| "counter_add ((k', n) # c) k =
     (if py_eq k' k then (k', n + 1) # c else (k', n) # counter_add c k)"

text \<open>\<^verbatim>\<open>Counter(r.get('result', 'UNKNOWN') for r in rows)\<close>: the generator is consumed
  element by element, so the first row that is not a dictionary, or whose label cannot be
  hashed, raises.\<close>

fun count_elements :: "counter \<Rightarrow> json list \<Rightarrow> py_error + counter" where
  "count_elements c [] = Inr c"
| "count_elements c (r # rs) =
     ebind (py_get r ''result'' (JStr ''UNKNOWN'')) (\<lambda>v.
       if hashable v then count_elements (counter_add c v) rs else Inl TypeError)"

definition counts :: "json list \<Rightarrow> py_error + counter" where
  "counts rows = count_elements [] rows"

section \<open>The summary\<close>

text \<open>\<^verbatim>\<open>next((r for r in rows if r.get('result') == 'FAIL'), None)\<close>; \<^verbatim>\<open>None\<close> is
  \<open>JNull\<close>. Only the string \<^verbatim>\<open>'FAIL'\<close> is equal to \<^verbatim>\<open>'FAIL'\<close>.\<close>

fun root_failure :: "json list \<Rightarrow> py_error + json" where
  "root_failure [] = Inr JNull"
| "root_failure (r # rs) =
     ebind (py_get r ''result'' JNull) (\<lambda>v.
       if v = JStr ''FAIL'' then Inr r else root_failure rs)"

text \<open>\<^verbatim>\<open>[r for r in rows if r.get('result') == 'BLOCKED']\<close>\<close>

fun blocked :: "json list \<Rightarrow> py_error + json list" where
  "blocked [] = Inr []"
| "blocked (r # rs) =
     ebind (py_get r ''result'' JNull) (\<lambda>v.
       ebind (blocked rs) (\<lambda>bs.
         Inr (if v = JStr ''BLOCKED'' then r # bs else bs)))"

text \<open>The lines appended under \<^verbatim>\<open>if root_failure:\<close>.\<close>

definition root_cause_lines :: "pylib \<Rightarrow> json \<Rightarrow> json list \<Rightarrow> py_error + string list" where
  "root_cause_lines lib rf bl =
     (if truthy rf then
        ebind (py_get rf ''test'' JNull) (\<lambda>test.
        ebind (py_get rf ''code'' (JStr ''UNKNOWN'')) (\<lambda>code.
        ebind (py_get rf ''detail'' (JStr [])) (\<lambda>detail.
          Inr ([''## Root cause'',
                ''- Test '' @ py_format lib test @ '': `'' @ py_format lib code @ ''`'',
                ''- Detail: '' @ py_format lib detail]
               @ (if bl \<noteq> [] then
                    [''- Downstream blocked: '' @ str_nat (length bl) @ '' test(s)'']
                  else [])
               @ [[]]))))
      else Inr [])"

text \<open>The body of \<^verbatim>\<open>for r in rows:\<close> and the loop.\<close>

definition matrix_line :: "pylib \<Rightarrow> json \<Rightarrow> py_error + string" where
  "matrix_line lib r =
     ebind (py_get r ''test'' (JStr ''?'')) (\<lambda>test.
     ebind (py_get r ''result'' (JStr ''UNKNOWN'')) (\<lambda>result.
     ebind (py_get r ''code'' (JStr ''UNKNOWN'')) (\<lambda>code.
     ebind (py_get r ''detail'' (JStr [])) (\<lambda>detail.
       Inr (''- Test '' @ py_format lib test @ '': '' @ py_format lib result @ '' | ''
            @ py_format lib code @ '' | '' @ py_format lib detail)))))"

fun matrix_lines :: "pylib \<Rightarrow> json list \<Rightarrow> py_error + string list" where
  "matrix_lines lib [] = Inr []"
| "matrix_lines lib (r # rs) =
     ebind (matrix_line lib r) (\<lambda>l.
       ebind (matrix_lines lib rs) (\<lambda>ls. Inr (l # ls)))"

text \<open>The list \<^verbatim>\<open>lines\<close> that \<^verbatim>\<open>main\<close> builds from the parsed document \<open>doc\<close>, the
  clock reading \<open>now\<close> (\<^verbatim>\<open>datetime.now(timezone.utc).isoformat()\<close>) and the input
  path \<open>inp\<close> as printed. The empty string is \<open>[]\<close>.\<close>

definition lines :: "pylib \<Rightarrow> string \<Rightarrow> string \<Rightarrow> json \<Rightarrow> py_error + string list" where
  "lines lib now inp doc =
     ebind (py_iter doc) (\<lambda>rows.
     ebind (counts rows) (\<lambda>cnt.
     ebind (root_failure rows) (\<lambda>rf.
     ebind (blocked rows) (\<lambda>bl.
     ebind (root_cause_lines lib rf bl) (\<lambda>rc.
     ebind (matrix_lines lib rows) (\<lambda>mx.
       Inr ([''# Ladder Summary'',
             [],
             ''- Generated: '' @ now,
             ''- Input: `'' @ inp @ ''`'',
             [],
             ''## Outcome'',
             ''- PASS: '' @ str_nat (counter_get cnt (JStr ''PASS'') 0),
             ''- FAIL: '' @ str_nat (counter_get cnt (JStr ''FAIL'') 0),
             ''- BLOCKED: '' @ str_nat (counter_get cnt (JStr ''BLOCKED'') 0),
             []]
            @ rc
            @ [''## Test matrix'']
            @ mx)))))))"

text \<open>\<^verbatim>\<open>sep.join(xs)\<close>\<close>

fun join :: "string \<Rightarrow> string list \<Rightarrow> string" where
  "join sep [] = []"
| "join sep [x] = x"
| "join sep (x # y # ys) = x @ sep @ join sep (y # ys)"

section \<open>Files, output streams and the entry point\<close>

text \<open>
  The world of a run: the file system as a map from a path, as \<^verbatim>\<open>str\<close> prints it, to a
  directory or a regular file with its text; the reading of the clock; the lines printed to
  standard output; what the interpreter prints to standard error. Reading a directory
  and writing to one fail; failures of the operating system beyond these (permissions, a
  missing parent directory, a file that is not UTF-8) are outside this model.
\<close>

datatype node = Directory | Regular string

datatype diag = Message string | Traceback py_error

record world =
  files :: "string \<rightharpoonup> node"
  clock :: string
  stdout :: "string list"
  stderr :: "diag list"

definition path_exists :: "world \<Rightarrow> string \<Rightarrow> bool" where
  "path_exists w p = (files w p \<noteq> None)"

definition read_text :: "world \<Rightarrow> string \<Rightarrow> py_error + string" where
  "read_text w p =
     (case files w p of
        Some (Regular s) \<Rightarrow> Inr s
      | Some Directory \<Rightarrow> Inl IsADirectoryError
      | None \<Rightarrow> Inl FileNotFoundError)"

definition write_text :: "world \<Rightarrow> string \<Rightarrow> string \<Rightarrow> py_error + world" where
  "write_text w p s =
     (case files w p of
        Some Directory \<Rightarrow> Inl IsADirectoryError
      | _ \<Rightarrow> Inr (w\<lparr>files := (files w)(p \<mapsto> Regular s)\<rparr>))"

text \<open>The two paths of \<^verbatim>\<open>main\<close>, as \<^verbatim>\<open>str\<close> prints them; \<open>argv\<close> is \<^verbatim>\<open>sys.argv\<close>.\<close>

definition in_path :: "pylib \<Rightarrow> string list \<Rightarrow> string" where
  "in_path lib argv =
     path_str lib (if length argv > 1 then argv ! 1 else ''tmp/ladder-results.json'')"

definition out_path :: "pylib \<Rightarrow> string list \<Rightarrow> string" where
  "out_path lib argv =
     path_str lib (if length argv > 2 then argv ! 2 else ''tmp/ladder-summary.md'')"

text \<open>\<^verbatim>\<open>main\<close>: the result is what it raises or returns, and the world it leaves.\<close>

definition main :: "pylib \<Rightarrow> string list \<Rightarrow> world \<Rightarrow> (py_error + int) \<times> world" where
  "main lib argv w =
     (if \<not> path_exists w (in_path lib argv) then
        (Inl (SystemExit (''Input not found: '' @ in_path lib argv)), w)
      else
        (case ebind (read_text w (in_path lib argv)) (\<lambda>text.
              ebind (json_loads lib text) (\<lambda>doc.
              ebind (lines lib (clock w) (in_path lib argv) doc) (\<lambda>ls.
              ebind (write_text w (out_path lib argv) (join [nl] ls @ [nl])) (\<lambda>w'.
                Inr (w'\<lparr>stdout := stdout w' @ [out_path lib argv]\<rparr>))))) of
           Inl e \<Rightarrow> (Inl e, w)
         | Inr w' \<Rightarrow> (Inr 0, w')))"

text \<open>\<^verbatim>\<open>raise SystemExit(main())\<close> at top level: the exit status and the world. An integer
  argument is the status; a string argument is printed to standard error with status 1;
  any other exception ends the process with a traceback and status 1.\<close>

definition script :: "pylib \<Rightarrow> string list \<Rightarrow> world \<Rightarrow> int \<times> world" where
  "script lib argv w =
     (case main lib argv w of
        (Inr code, w') \<Rightarrow> (code, w')
      | (Inl (SystemExit msg), w') \<Rightarrow> (1, w'\<lparr>stderr := stderr w' @ [Message msg]\<rparr>)
      | (Inl e, w') \<Rightarrow> (1, w'\<lparr>stderr := stderr w' @ [Traceback e]\<rparr>))"

section \<open>Notions used to state the properties\<close>

text \<open>The label a record is counted under, \<^verbatim>\<open>r.get('result', 'UNKNOWN')\<close>, for a record that is
  a dictionary.\<close>

definition result_label :: "(string \<times> json) list \<Rightarrow> json" where
  "result_label kvs = dict_get kvs ''result'' (JStr ''UNKNOWN'')"

text \<open>The test \<^verbatim>\<open>r.get('result') == s\<close> for a record that is a dictionary: it holds only when
  the field is present and is the string \<open>s\<close>, character for character.\<close>

definition has_result :: "string \<Rightarrow> (string \<times> json) list \<Rightarrow> bool" where
  "has_result s kvs = (dict_get kvs ''result'' JNull = JStr s)"

text \<open>A section of a list of lines: the lines after the first line equal to the heading \<open>h\<close>,
  up to the next line that starts a second-level heading. The list is either the list
  \<^verbatim>\<open>lines\<close> that the script builds or the list of lines of the document it writes.\<close>

definition is_heading :: "string \<Rightarrow> bool" where
  "is_heading l = prefix ''## '' l"

definition section_body :: "string \<Rightarrow> string list \<Rightarrow> string list" where
  "section_body h ls = takeWhile (\<lambda>l. \<not> is_heading l) (drop 1 (dropWhile (\<lambda>l. l \<noteq> h) ls))"

text \<open>The bullet of the test matrix as the specification words it,
  \<^verbatim>\<open>- Test {test}: {result} | {code} | {detail}\<close>, with \<^verbatim>\<open>?\<close> for an absent test,
  \<^verbatim>\<open>UNKNOWN\<close> for an absent result or code and the empty string for an absent detail.\<close>

definition spec_matrix_bullet :: "pylib \<Rightarrow> (string \<times> json) list \<Rightarrow> string" where
  "spec_matrix_bullet lib kvs =
     ''- Test '' @ py_format lib (dict_get kvs ''test'' (JStr ''?''))
     @ '': '' @ py_format lib (dict_get kvs ''result'' (JStr ''UNKNOWN''))
     @ '' | '' @ py_format lib (dict_get kvs ''code'' (JStr ''UNKNOWN''))
     @ '' | '' @ py_format lib (dict_get kvs ''detail'' (JStr []))"

text \<open>Every record's label can be a dictionary key: it is not a list or a dictionary. Strings,
  which the input format prescribes, always can.\<close>

definition hashable_labels :: "(string \<times> json) list list \<Rightarrow> bool" where
  "hashable_labels ds = list_all (\<lambda>kvs. hashable (result_label kvs)) ds"

text \<open>The lines of the written document. \<open>split_nl\<close> cuts a text at its line feeds; a document
  ends with a line feed, and its lines are the pieces before the last one. The script copies
  every value into \<^verbatim>\<open>lines\<close> as it is, so an element of \<^verbatim>\<open>lines\<close> that holds a line feed
  is more than one line of the document.\<close>

fun split_nl :: "string \<Rightarrow> string list" where
  "split_nl [] = [[]]"
| "split_nl (c # cs) =
     (if c = nl then [] # split_nl cs
      else (case split_nl cs of [] \<Rightarrow> [[c]] | l # ls \<Rightarrow> (c # l) # ls))"

definition doc_lines :: "string \<Rightarrow> string list" where
  "doc_lines t = butlast (split_nl t)"


section \<open>Example inputs\<close>

text \<open>Two input files: the JSON text \<open>ex_text\<close>, which \<^verbatim>\<open>json.loads\<close> parses to \<open>ex_doc\<close>, and
  \<open>ex_text_nl\<close>, in which the detail is the letter x followed by the JSON escape for a line
  feed (a backslash and the letter n), so that the parsed detail ends with a line feed. The
  library of the examples parses these two texts, and \<^verbatim>\<open>str(Path(s))\<close> is \<open>s\<close> for the plain
  relative paths used.\<close>

definition ex_text :: string where
  \<open>ex_text = ''[{"test": "t1", "result": "PASS"}]''\<close>

definition ex_doc :: json where
  "ex_doc = JArr [JObj [(''test'', JStr ''t1''), (''result'', JStr ''PASS'')]]"

definition ex_text_nl :: string where
  \<open>ex_text_nl = ''[{"detail": "x'' @ [CHR 0x5C, CHR ''n''] @ ''"}]''\<close>

definition ex_doc_nl :: json where
  "ex_doc_nl = JArr [JObj [(''detail'', JStr [CHR ''x'', nl])]]"

definition ex_lib :: pylib where
  "ex_lib =
     \<lparr>json_loads = (\<lambda>s. if s = ex_text then Inr ex_doc
                         else if s = ex_text_nl then Inr ex_doc_nl
                         else Inl JSONDecodeError),
      py_repr = (\<lambda>v. ''<repr>''), path_str = (\<lambda>s. s)\<rparr>"

text \<open>A ladder of seven records: a BLOCKED record, the first FAIL record, then a BLOCKED record
  with a numeric test, a second FAIL record, a PASS record, a record labelled \<^verbatim>\<open>SKIP\<close> and a
  record with no result.\<close>

definition ex_pre :: "(string \<times> json) list list" where
  "ex_pre = [[(''test'', JStr ''t0''), (''result'', JStr ''BLOCKED'')]]"

definition ex_fail :: "(string \<times> json) list" where
  "ex_fail = [(''test'', JStr ''t1''), (''result'', JStr ''FAIL''), (''code'', JStr ''E_TIMEOUT''),
              (''detail'', JStr ''connect failed'')]"

definition ex_post :: "(string \<times> json) list list" where
  "ex_post =
     [[(''test'', JInt 2), (''result'', JStr ''BLOCKED'')],
      [(''test'', JStr ''t3''), (''result'', JStr ''FAIL''), (''code'', JStr ''E_LATER'')],
      [(''test'', JStr ''t4''), (''result'', JStr ''PASS'')],
      [(''test'', JStr ''t5''), (''result'', JStr ''SKIP'')],
      [(''test'', JStr ''t6'')]]"

definition ex_ladder :: "(string \<times> json) list list" where
  "ex_ladder = ex_pre @ ex_fail # ex_post"

text \<open>Records without a FAIL: one is BLOCKED, one is labelled \<^verbatim>\<open>fail\<close> in lower case.\<close>

definition ex_no_fail :: "(string \<times> json) list list" where
  "ex_no_fail =
     [[(''test'', JStr ''t1''), (''result'', JStr ''PASS'')],
      [(''test'', JStr ''t2''), (''result'', JStr ''BLOCKED'')],
      [(''result'', JStr ''fail'')]]"

definition ex_now :: string where
  "ex_now = ''2026-01-01T00:00:00+00:00''"

lemmas ex_defs = ex_ladder_def ex_pre_def ex_fail_def ex_post_def ex_no_fail_def

text \<open>The file system holds the input and an older summary at the output path.\<close>

definition ex_world :: world where
  "ex_world = \<lparr>files = [''in.json'' \<mapsto> Regular ex_text, ''out.md'' \<mapsto> Regular ''old summary''],
               clock = ex_now, stdout = [], stderr = []\<rparr>"

definition ex_argv :: "string list" where
  "ex_argv = [''scripts/ladder-summarize.py'', ''in.json'', ''out.md'']"

definition ex_argv_missing :: "string list" where
  "ex_argv_missing = [''scripts/ladder-summarize.py'', ''missing.json'', ''out.md'']"

definition ex_world_nl :: world where
  "ex_world_nl = \<lparr>files = [''in.json'' \<mapsto> Regular ex_text_nl],
                  clock = ex_now, stdout = [], stderr = []\<rparr>"

text \<open>The text the script writes for \<open>ex_text_nl\<close>.\<close>

definition ex_summary_nl :: string where
  "ex_summary_nl =
     join [nl]
       [''# Ladder Summary'',
        [],
        ''- Generated: 2026-01-01T00:00:00+00:00'',
        ''- Input: `in.json`'',
        [],
        ''## Outcome'',
        ''- PASS: 0'',
        ''- FAIL: 0'',
        ''- BLOCKED: 0'',
        [],
        ''## Test matrix'',
        ''- Test ?: UNKNOWN | UNKNOWN | x'' @ [nl]]
     @ [nl]"

text \<open>A later run over the same input: another clock reading, another unrelated file, earlier
  output on the terminal, and no summary yet.\<close>

definition ex_world_later :: world where
  "ex_world_later =
     \<lparr>files = [''in.json'' \<mapsto> Regular ex_text, ''notes.txt'' \<mapsto> Regular ''unrelated''],
      clock = ''2026-02-02T12:30:00+00:00'', stdout = [''earlier output''], stderr = []\<rparr>"




section \<open>Basic facts about the model\<close>

lemma ebind_Inl [simp]: "ebind (Inl e) f = Inl e"
  by (simp add: ebind_def)

lemma ebind_Inr [simp]: "ebind (Inr x) f = f x"
  by (simp add: ebind_def)

lemma ebind_eq_Inr: "ebind m f = Inr y \<longleftrightarrow> (\<exists>x. m = Inr x \<and> f x = Inr y)"
  by (cases m) simp_all

lemma py_get_JObj [simp]: "py_get (JObj kvs) k d = Inr (dict_get kvs k d)"
  by (simp add: py_get_def)

lemma py_eq_JStr [simp]: "py_eq v (JStr s) = (v = JStr s)"
  by (cases v) simp_all

lemma py_eq_JStr_left [simp]: "py_eq (JStr s) v = (JStr s = v)"
  by (cases v) simp_all

lemma counter_get_add_JStr:
  "counter_get (counter_add c v) (JStr s) 0 = counter_get c (JStr s) 0 + (if v = JStr s then 1 else 0)"
  by (induction c v rule: counter_add.induct) auto

lemma sum_counter_add: "sum_list (map snd (counter_add c v)) = Suc (sum_list (map snd c))"
  by (induction c v rule: counter_add.induct) auto

lemma count_elements_records:
  "list_all (\<lambda>kvs. hashable (result_label kvs)) ds \<Longrightarrow>
   count_elements c (map JObj ds) = Inr (foldl counter_add c (map result_label ds))"
  by (induction ds arbitrary: c) (simp_all add: result_label_def)

lemma foldl_counter_get:
  "counter_get (foldl counter_add c vs) (JStr s) 0 = counter_get c (JStr s) 0 + length (filter (\<lambda>v. v = JStr s) vs)"
  by (induction vs arbitrary: c) (simp_all add: counter_get_add_JStr)

lemma foldl_counter_sum:
  "sum_list (map snd (foldl counter_add c vs)) = sum_list (map snd c) + length vs"
  by (induction vs arbitrary: c) (simp_all add: sum_counter_add)

lemma root_failure_records:
  "root_failure (map JObj ds) = Inr (case find (has_result ''FAIL'') ds of None \<Rightarrow> JNull | Some kvs \<Rightarrow> JObj kvs)"
  by (induction ds) (simp_all add: has_result_def)

lemma blocked_records:
  "blocked (map JObj ds) = Inr (map JObj (filter (has_result ''BLOCKED'') ds))"
  by (induction ds) (simp_all add: has_result_def)

lemma has_result_nonempty: "has_result s kvs \<Longrightarrow> kvs \<noteq> []"
  by (auto simp: has_result_def dict_get_def)

lemma count_elements_Inr_dicts:
  "count_elements c rows = Inr c' \<Longrightarrow> \<exists>ds. rows = map JObj ds \<and> list_all (\<lambda>kvs. hashable (result_label kvs)) ds"
proof (induction rows arbitrary: c)
  case Nil
  then show ?case by simp
next
  case (Cons r rows)
  from Cons.prems obtain kvs where r: "r = JObj kvs"
    by (cases r) (simp_all add: py_get_def)
  with Cons.prems have h: "hashable (result_label kvs)" and rest: "count_elements (counter_add c (result_label kvs)) rows = Inr c'"
    by (simp_all add: result_label_def split: if_splits)
  from Cons.IH [OF rest] obtain ds where "rows = map JObj ds" "list_all (\<lambda>kvs. hashable (result_label kvs)) ds"
    by blast
  with r h have "r # rows = map JObj (kvs # ds) \<and> list_all (\<lambda>kvs. hashable (result_label kvs)) (kvs # ds)"
    by simp
  then show ?case by (rule exI)
qed

lemma matrix_lines_records:
  "matrix_lines lib (map JObj ds) = Inr (map (spec_matrix_bullet lib) ds)"
  by (induction ds) (simp_all add: matrix_line_def spec_matrix_bullet_def)

lemma root_cause_lines_JNull: "root_cause_lines lib JNull bl = Inr []"
  by (simp add: root_cause_lines_def truthy_def)

lemma root_cause_lines_JObj:
  "kvs \<noteq> [] \<Longrightarrow> root_cause_lines lib (JObj kvs) bl =
     Inr ([''## Root cause'',
           ''- Test '' @ py_format lib (dict_get kvs ''test'' JNull) @ '': `''
             @ py_format lib (dict_get kvs ''code'' (JStr ''UNKNOWN'')) @ ''`'',
           ''- Detail: '' @ py_format lib (dict_get kvs ''detail'' (JStr []))]
          @ (if bl \<noteq> [] then
               [''- Downstream blocked: '' @ str_nat (length bl) @ '' test(s)'']
             else [])
          @ [[]])"
  by (simp add: root_cause_lines_def truthy_def)

lemma find_has_result_nonempty: "find (has_result s) ds = Some kvs \<Longrightarrow> kvs \<noteq> []"
  by (auto simp: find_Some_iff dest: has_result_nonempty)

section \<open>The rendered lines for a list of records\<close>

text \<open>What the script renders for a list of records: the complete list of lines.\<close>

lemma lines_records:
  assumes "list_all (\<lambda>kvs. hashable (result_label kvs)) ds"
  shows "lines lib now inp (JArr (map JObj ds)) =
     Inr ([''# Ladder Summary'',
           [],
           ''- Generated: '' @ now,
           ''- Input: `'' @ inp @ ''`'',
           [],
           ''## Outcome'',
           ''- PASS: '' @ str_nat (length (filter (\<lambda>kvs. result_label kvs = JStr ''PASS'') ds)),
           ''- FAIL: '' @ str_nat (length (filter (\<lambda>kvs. result_label kvs = JStr ''FAIL'') ds)),
           ''- BLOCKED: '' @ str_nat (length (filter (\<lambda>kvs. result_label kvs = JStr ''BLOCKED'') ds)),
           []]
          @ (case find (has_result ''FAIL'') ds of
               None \<Rightarrow> []
             | Some kvs \<Rightarrow>
                 [''## Root cause'',
                  ''- Test '' @ py_format lib (dict_get kvs ''test'' JNull) @ '': `''
                    @ py_format lib (dict_get kvs ''code'' (JStr ''UNKNOWN'')) @ ''`'',
                  ''- Detail: '' @ py_format lib (dict_get kvs ''detail'' (JStr []))]
                 @ (if filter (has_result ''BLOCKED'') ds \<noteq> [] then
                      [''- Downstream blocked: ''
                         @ str_nat (length (filter (has_result ''BLOCKED'') ds)) @ '' test(s)'']
                    else [])
                 @ [[]])
          @ [''## Test matrix'']
          @ map (spec_matrix_bullet lib) ds)"
proof -
  have cnt: "counts (map JObj ds) = Inr (foldl counter_add [] (map result_label ds))"
    unfolding counts_def using assms by (rule count_elements_records)
  have get: "counter_get (foldl counter_add [] (map result_label ds)) (JStr s) 0
      = length (filter (\<lambda>kvs. result_label kvs = JStr s) ds)" for s
    by (simp add: foldl_counter_get length_filter_map comp_def)
  show ?thesis
  proof (cases "find (has_result ''FAIL'') ds")
    case None
    then show ?thesis
      by (simp add: lines_def py_iter_def cnt get root_failure_records blocked_records
          matrix_lines_records root_cause_lines_JNull)
  next
    case (Some kvs)
    then have "kvs \<noteq> []" by (rule find_has_result_nonempty)
    with Some show ?thesis
      by (simp add: lines_def py_iter_def cnt get root_failure_records blocked_records
          matrix_lines_records root_cause_lines_JObj)
  qed
qed

lemma ex_ladder_ok: "hashable_labels ex_ladder"
  by (simp add: hashable_labels_def ex_defs result_label_def dict_get_def hashable_def)

text \<open>A property beyond the claims: the script renders a list only when every row is a
  dictionary whose label is hashable, so the condition \<open>hashable_labels\<close> of the theorems
  below is exactly the condition for a list to be rendered.\<close>

theorem rendering_needs_records:
  assumes "lines lib now inp (JArr rows) = Inr ls"
  shows "\<exists>ds. rows = map JObj ds \<and> hashable_labels ds"
proof -
  from assms obtain cnt where "counts rows = Inr cnt"
    unfolding lines_def ebind_eq_Inr py_iter_def by auto
  then show ?thesis
    unfolding counts_def hashable_labels_def by (rule count_elements_Inr_dicts)
qed

text \<open>The theorem at the list with one PASS record.\<close>

theorem rendering_needs_records_witness:
  "\<exists>ds. [JObj [(''test'', JStr ''t1''), (''result'', JStr ''PASS'')]] = map JObj ds
     \<and> hashable_labels ds"
proof -
  have "lines ex_lib ex_now ''in.json''
          (JArr [JObj [(''test'', JStr ''t1''), (''result'', JStr ''PASS'')]]) =
      Inr [''# Ladder Summary'',
           [],
           ''- Generated: 2026-01-01T00:00:00+00:00'',
           ''- Input: `in.json`'',
           [],
           ''## Outcome'',
           ''- PASS: 1'',
           ''- FAIL: 0'',
           ''- BLOCKED: 0'',
           [],
           ''## Test matrix'',
           ''- Test t1: PASS | UNKNOWN | '']"
    by (simp add: ex_now_def lines_def py_iter_def counts_def root_cause_lines_def
        truthy_def matrix_line_def dict_get_def hashable_def py_format_def str_nat.simps digit_def)
  then show ?thesis
    by (rule rendering_needs_records)
qed

text \<open>Inputs that end the run with an exception before anything is rendered: a row that is not
  a dictionary, a label that cannot be hashed, a document that cannot be iterated.\<close>

lemma row_without_get_raises: "lines lib now inp (JArr [JStr ''PASS'']) = Inl AttributeError"
  by (simp add: lines_def py_iter_def counts_def py_get_def)

lemma unhashable_label_raises:
  "lines lib now inp (JArr [JObj [(''result'', JArr [])]]) = Inl TypeError"
  by (simp add: lines_def py_iter_def counts_def dict_get_def hashable_def)

lemma root_not_iterable_raises: "lines lib now inp JNull = Inl TypeError"
  by (simp add: lines_def py_iter_def)

lemma length_filter_four:
  assumes "distinct [a, b, c, d]"
  shows "length (filter (\<lambda>x. f x = a) xs) + length (filter (\<lambda>x. f x = b) xs)
       + length (filter (\<lambda>x. f x = c) xs) + length (filter (\<lambda>x. f x = d) xs)
       = length (filter (\<lambda>x. f x \<in> {a, b, c, d}) xs)"
  using assms by (induction xs) auto

section \<open>The counts\<close>

text \<open>\<^bold>\<open>Claim C1\<close>, amended. For every input list of \<open>N\<close> records the counter is built and its
  counts over all labels sum to \<open>N\<close>. Every string label \<open>s\<close> is counted under \<open>s\<close> itself, a
  record without a result under \<^verbatim>\<open>UNKNOWN\<close>. The PASS, FAIL, BLOCKED and UNKNOWN counts sum
  to the number of records whose label is one of these four, which is \<open>N\<close> only when no record
  carries another label.\<close>

theorem counts_sum:
  assumes "hashable_labels ds"
  shows "\<exists>cnt. counts (map JObj ds) = Inr cnt
     \<and> sum_list (map snd cnt) = length ds
     \<and> (\<forall>s. counter_get cnt (JStr s) 0 = length (filter (\<lambda>kvs. result_label kvs = JStr s) ds))
     \<and> counter_get cnt (JStr ''PASS'') 0 + counter_get cnt (JStr ''FAIL'') 0
         + counter_get cnt (JStr ''BLOCKED'') 0 + counter_get cnt (JStr ''UNKNOWN'') 0
       = length (filter (\<lambda>kvs. result_label kvs \<in>
           {JStr ''PASS'', JStr ''FAIL'', JStr ''BLOCKED'', JStr ''UNKNOWN''}) ds)"
proof -
  let ?cnt = "foldl counter_add [] (map result_label ds)"
  have cnt: "counts (map JObj ds) = Inr ?cnt"
    unfolding counts_def using assms [unfolded hashable_labels_def] by (rule count_elements_records)
  have total: "sum_list (map snd ?cnt) = length ds"
    by (simp add: foldl_counter_sum)
  have get: "counter_get ?cnt (JStr s) 0 = length (filter (\<lambda>kvs. result_label kvs = JStr s) ds)" for s
    by (simp add: foldl_counter_get length_filter_map comp_def)
  have four: "counter_get ?cnt (JStr ''PASS'') 0 + counter_get ?cnt (JStr ''FAIL'') 0
         + counter_get ?cnt (JStr ''BLOCKED'') 0 + counter_get ?cnt (JStr ''UNKNOWN'') 0
       = length (filter (\<lambda>kvs. result_label kvs \<in>
           {JStr ''PASS'', JStr ''FAIL'', JStr ''BLOCKED'', JStr ''UNKNOWN''}) ds)"
    unfolding get by (rule length_filter_four) simp
  from cnt total get four show ?thesis by blast
qed

text \<open>The theorem at the ladder of seven records, one of them labelled \<^verbatim>\<open>SKIP\<close>: the four
  counts sum to six.\<close>

theorem counts_sum_witness:
  "\<exists>cnt. counts (map JObj ex_ladder) = Inr cnt
     \<and> sum_list (map snd cnt) = 7
     \<and> counter_get cnt (JStr ''SKIP'') 0 = 1
     \<and> counter_get cnt (JStr ''UNKNOWN'') 0 = 1
     \<and> counter_get cnt (JStr ''PASS'') 0 + counter_get cnt (JStr ''FAIL'') 0
         + counter_get cnt (JStr ''BLOCKED'') 0 + counter_get cnt (JStr ''UNKNOWN'') 0 = 6"
proof -
  have ok: "hashable_labels ex_ladder"
    by (simp add: hashable_labels_def ex_defs result_label_def dict_get_def hashable_def)
  from counts_sum [OF ok] obtain cnt where c: "counts (map JObj ex_ladder) = Inr cnt"
    and total: "sum_list (map snd cnt) = length ex_ladder"
    and get: "\<And>s. counter_get cnt (JStr s) 0 = length (filter (\<lambda>kvs. result_label kvs = JStr s) ex_ladder)"
    and four: "counter_get cnt (JStr ''PASS'') 0 + counter_get cnt (JStr ''FAIL'') 0
         + counter_get cnt (JStr ''BLOCKED'') 0 + counter_get cnt (JStr ''UNKNOWN'') 0
       = length (filter (\<lambda>kvs. result_label kvs \<in>
           {JStr ''PASS'', JStr ''FAIL'', JStr ''BLOCKED'', JStr ''UNKNOWN''}) ex_ladder)"
    by blast
  have "sum_list (map snd cnt) = 7"
    using total by (simp add: ex_defs)
  moreover have "counter_get cnt (JStr ''SKIP'') 0 = 1" "counter_get cnt (JStr ''UNKNOWN'') 0 = 1"
    unfolding get by (simp_all add: ex_defs result_label_def dict_get_def)
  moreover have "counter_get cnt (JStr ''PASS'') 0 + counter_get cnt (JStr ''FAIL'') 0
         + counter_get cnt (JStr ''BLOCKED'') 0 + counter_get cnt (JStr ''UNKNOWN'') 0 = 6"
    unfolding four by (simp add: ex_defs result_label_def dict_get_def)
  ultimately show ?thesis using c by blast
qed

text \<open>Claim C1 as stated fails for a single record labelled \<^verbatim>\<open>SKIP\<close>: it is counted under
  \<^verbatim>\<open>SKIP\<close>, the UNKNOWN count is 0, and the four counts sum to 0, not to 1.\<close>

theorem counts_sum_counterexample:
  "counts [JObj [(''test'', JStr ''t1''), (''result'', JStr ''SKIP'')]] = Inr [(JStr ''SKIP'', 1)]
   \<and> counter_get [(JStr ''SKIP'', 1)] (JStr ''PASS'') 0
     + counter_get [(JStr ''SKIP'', 1)] (JStr ''FAIL'') 0
     + counter_get [(JStr ''SKIP'', 1)] (JStr ''BLOCKED'') 0
     + counter_get [(JStr ''SKIP'', 1)] (JStr ''UNKNOWN'') 0
     \<noteq> length [JObj [(''test'', JStr ''t1''), (''result'', JStr ''SKIP'')]]
   \<and> counter_get [(JStr ''SKIP'', 1)] (JStr ''UNKNOWN'') 0 = 0"
  by (simp add: counts_def dict_get_def hashable_def)

section \<open>The sections of the summary\<close>

lemma bullet_not_heading [simp]: "\<not> is_heading (spec_matrix_bullet lib kvs)"
  by (simp add: is_heading_def spec_matrix_bullet_def)

lemma bullet_no_heading_prefix [simp]: "\<not> prefix ''## '' (spec_matrix_bullet lib kvs)"
  by (simp add: spec_matrix_bullet_def)

lemma takeWhile_bullets [simp]:
  "takeWhile (\<lambda>l. \<not> is_heading l) (map (spec_matrix_bullet lib) ds) = map (spec_matrix_bullet lib) ds"
  by (simp add: takeWhile_eq_all_conv)

lemma bullet_neq_root_heading [simp]: "spec_matrix_bullet lib kvs \<noteq> ''## Root cause''"
  by (simp add: spec_matrix_bullet_def)

lemma bullet_not_downstream [simp]: "\<not> prefix ''- Downstream blocked: '' (spec_matrix_bullet lib kvs)"
  by (simp add: spec_matrix_bullet_def)

text \<open>A list with a FAIL record splits at its first FAIL record.\<close>

lemma first_fail_split:
  "\<exists>x\<in>set ds. has_result ''FAIL'' x \<Longrightarrow>
   \<exists>pre r post. ds = pre @ r # post \<and> (\<forall>x\<in>set pre. \<not> has_result ''FAIL'' x) \<and> has_result ''FAIL'' r"
proof -
  assume "\<exists>x\<in>set ds. has_result ''FAIL'' x"
  then obtain pre r post where "ds = pre @ r # post" "has_result ''FAIL'' r"
    "\<forall>x\<in>set pre. \<not> has_result ''FAIL'' x"
    by (rule split_list_first_propE)
  then show ?thesis by blast
qed

lemma find_first:
  "\<forall>x\<in>set pre. \<not> P x \<Longrightarrow> P r \<Longrightarrow> find P (pre @ r # post) = Some r"
  by (induction pre) simp_all


lemma has_result_exclusive: "has_result s kvs \<Longrightarrow> s \<noteq> t \<Longrightarrow> \<not> has_result t kvs"
  by (simp add: has_result_def)

lemma hashable_labels_filter: "hashable_labels ds \<Longrightarrow> hashable_labels (filter P ds)"
  by (induction ds) (simp_all add: hashable_labels_def)

lemma hashable_labels_append:
  "hashable_labels (xs @ ys) \<longleftrightarrow> hashable_labels xs \<and> hashable_labels ys"
  by (simp add: hashable_labels_def)

lemma hashable_labels_Cons:
  "hashable_labels (x # xs) \<longleftrightarrow> hashable (result_label x) \<and> hashable_labels xs"
  by (simp add: hashable_labels_def)

lemma filter_blocked_without_fail:
  "filter (\<lambda>x. \<not> has_result ''FAIL'' x \<and> has_result ''BLOCKED'' x) xs
     = filter (has_result ''BLOCKED'') xs"
  by (rule filter_cong) (auto simp: has_result_def)

text \<open>The Root cause section when a first FAIL record exists.\<close>

lemma root_cause_section:
  assumes ok: "hashable_labels ds"
    and first: "find (has_result ''FAIL'') ds = Some r"
  shows "\<exists>ls. lines lib now inp (JArr (map JObj ds)) = Inr ls
       \<and> section_body ''## Root cause'' ls =
            [''- Test '' @ py_format lib (dict_get r ''test'' JNull) @ '': `''
               @ py_format lib (dict_get r ''code'' (JStr ''UNKNOWN'')) @ ''`'',
             ''- Detail: '' @ py_format lib (dict_get r ''detail'' (JStr []))]
            @ (if filter (has_result ''BLOCKED'') ds \<noteq> [] then
                 [''- Downstream blocked: ''
                    @ str_nat (length (filter (has_result ''BLOCKED'') ds)) @ '' test(s)'']
               else [])
            @ [[]]"
  using lines_records [OF ok [unfolded hashable_labels_def], of lib now inp] first
  by (simp add: section_body_def is_heading_def)

text \<open>\<^bold>\<open>Claim C2\<close>. When the input is \<open>pre @ r # post\<close>, no record of \<open>pre\<close> has result
  \<^verbatim>\<open>FAIL\<close> and \<open>r\<close> has, the root failure is \<open>r\<close>. The Root cause section shows the test, code
  and detail of \<open>r\<close> and the number of BLOCKED records, and it stays the same when every FAIL
  record after \<open>r\<close> is removed from the input: no later FAIL record contributes to it.\<close>

theorem root_cause_is_first_fail:
  assumes ok: "hashable_labels ds"
    and split: "ds = pre @ r # post"
    and pre: "\<forall>x\<in>set pre. \<not> has_result ''FAIL'' x"
    and r: "has_result ''FAIL'' r"
  shows "root_failure (map JObj ds) = Inr (JObj r)
     \<and> (\<exists>ls ls'. lines lib now inp (JArr (map JObj ds)) = Inr ls
          \<and> section_body ''## Root cause'' ls =
               [''- Test '' @ py_format lib (dict_get r ''test'' JNull) @ '': `''
                  @ py_format lib (dict_get r ''code'' (JStr ''UNKNOWN'')) @ ''`'',
                ''- Detail: '' @ py_format lib (dict_get r ''detail'' (JStr []))]
               @ (if filter (has_result ''BLOCKED'') ds \<noteq> [] then
                    [''- Downstream blocked: ''
                       @ str_nat (length (filter (has_result ''BLOCKED'') ds)) @ '' test(s)'']
                  else [])
               @ [[]]
          \<and> lines lib now inp
               (JArr (map JObj (pre @ r # filter (\<lambda>x. \<not> has_result ''FAIL'' x) post))) = Inr ls'
          \<and> section_body ''## Root cause'' ls' = section_body ''## Root cause'' ls)"
proof -
  let ?ds' = "pre @ r # filter (\<lambda>x. \<not> has_result ''FAIL'' x) post"
  have first: "find (has_result ''FAIL'') ds = Some r"
    unfolding split using pre r by (rule find_first)
  have first': "find (has_result ''FAIL'') ?ds' = Some r"
    using pre r by (rule find_first)
  have ok': "hashable_labels ?ds'"
    using ok unfolding split
    by (simp add: hashable_labels_append hashable_labels_Cons hashable_labels_filter)
  have same: "filter (has_result ''BLOCKED'') ?ds' = filter (has_result ''BLOCKED'') ds"
    unfolding split by (simp add: filter_blocked_without_fail)
  have rf: "root_failure (map JObj ds) = Inr (JObj r)"
    by (simp add: root_failure_records first)
  from root_cause_section [OF ok first, of lib now inp]
  obtain ls where ls: "lines lib now inp (JArr (map JObj ds)) = Inr ls"
    and sec: "section_body ''## Root cause'' ls =
               [''- Test '' @ py_format lib (dict_get r ''test'' JNull) @ '': `''
                  @ py_format lib (dict_get r ''code'' (JStr ''UNKNOWN'')) @ ''`'',
                ''- Detail: '' @ py_format lib (dict_get r ''detail'' (JStr []))]
               @ (if filter (has_result ''BLOCKED'') ds \<noteq> [] then
                    [''- Downstream blocked: ''
                       @ str_nat (length (filter (has_result ''BLOCKED'') ds)) @ '' test(s)'']
                  else [])
               @ [[]]"
    by blast
  from root_cause_section [OF ok' first', of lib now inp]
  obtain ls' where ls': "lines lib now inp (JArr (map JObj ?ds')) = Inr ls'"
    and sec': "section_body ''## Root cause'' ls' =
               [''- Test '' @ py_format lib (dict_get r ''test'' JNull) @ '': `''
                  @ py_format lib (dict_get r ''code'' (JStr ''UNKNOWN'')) @ ''`'',
                ''- Detail: '' @ py_format lib (dict_get r ''detail'' (JStr []))]
               @ (if filter (has_result ''BLOCKED'') ?ds' \<noteq> [] then
                    [''- Downstream blocked: ''
                       @ str_nat (length (filter (has_result ''BLOCKED'') ?ds')) @ '' test(s)'']
                  else [])
               @ [[]]"
    by blast
  have "section_body ''## Root cause'' ls' = section_body ''## Root cause'' ls"
    unfolding sec sec' same ..
  with rf ls sec ls' show ?thesis by blast
qed



text \<open>\<^bold>\<open>Claim C10\<close>. When the input is \<open>pre @ r # post\<close> with \<open>r\<close> the first FAIL record and
  \<open>pre\<close> holds a BLOCKED record, the Root cause section has the downstream-blocked line, and
  the number it reports counts the BLOCKED records of \<open>pre\<close> together with those of \<open>post\<close>.\<close>

theorem blocked_before_fail_counted:
  assumes ok: "hashable_labels ds"
    and split: "ds = pre @ r # post"
    and pre: "\<forall>x\<in>set pre. \<not> has_result ''FAIL'' x"
    and r: "has_result ''FAIL'' r"
    and early: "\<exists>x\<in>set pre. has_result ''BLOCKED'' x"
  shows "\<exists>ls. lines lib now inp (JArr (map JObj ds)) = Inr ls
     \<and> ''- Downstream blocked: ''
          @ str_nat (length (filter (has_result ''BLOCKED'') pre)
                     + length (filter (has_result ''BLOCKED'') post)) @ '' test(s)''
        \<in> set (section_body ''## Root cause'' ls)"
proof -
  have first: "find (has_result ''FAIL'') ds = Some r"
    unfolding split using pre r by (rule find_first)
  have nb: "\<not> has_result ''BLOCKED'' r"
    using r by (rule has_result_exclusive) simp
  from early have ne: "filter (has_result ''BLOCKED'') ds \<noteq> []"
    unfolding split by (auto simp: filter_empty_conv)
  have n: "length (filter (has_result ''BLOCKED'') ds)
      = length (filter (has_result ''BLOCKED'') pre) + length (filter (has_result ''BLOCKED'') post)"
    unfolding split using nb by simp
  from root_cause_section [OF ok first, of lib now inp] ne n show ?thesis
    by auto
qed

text \<open>The theorem at the ladder, which has a second FAIL record \<^verbatim>\<open>t3\<close> after the first.\<close>

theorem root_cause_is_first_fail_witness:
  "root_failure (map JObj ex_ladder) = Inr (JObj ex_fail)
     \<and> (\<exists>ls ls'. lines ex_lib ex_now ''in.json'' (JArr (map JObj ex_ladder)) = Inr ls
          \<and> section_body ''## Root cause'' ls =
               [''- Test t1: `E_TIMEOUT`'', ''- Detail: connect failed'',
                ''- Downstream blocked: 2 test(s)'', []]
          \<and> lines ex_lib ex_now ''in.json''
               (JArr (map JObj (ex_pre @ ex_fail # filter (\<lambda>x. \<not> has_result ''FAIL'' x) ex_post))) = Inr ls'
          \<and> section_body ''## Root cause'' ls' = section_body ''## Root cause'' ls)"
proof -
  have pre: "\<forall>x\<in>set ex_pre. \<not> has_result ''FAIL'' x"
    by (simp add: ex_defs has_result_def dict_get_def)
  have r: "has_result ''FAIL'' ex_fail"
    by (simp add: ex_defs has_result_def dict_get_def)
  have eval:
    "[''- Test '' @ py_format ex_lib (dict_get ex_fail ''test'' JNull) @ '': `''
        @ py_format ex_lib (dict_get ex_fail ''code'' (JStr ''UNKNOWN'')) @ ''`'',
      ''- Detail: '' @ py_format ex_lib (dict_get ex_fail ''detail'' (JStr []))]
     @ (if filter (has_result ''BLOCKED'') ex_ladder \<noteq> [] then
          [''- Downstream blocked: ''
             @ str_nat (length (filter (has_result ''BLOCKED'') ex_ladder)) @ '' test(s)'']
        else [])
     @ [[]]
     = [''- Test t1: `E_TIMEOUT`'', ''- Detail: connect failed'',
        ''- Downstream blocked: 2 test(s)'', []]"
    by (simp add: ex_defs has_result_def dict_get_def py_format_def str_nat.simps digit_def)
  show ?thesis
    using root_cause_is_first_fail [OF ex_ladder_ok ex_ladder_def pre r, of ex_lib ex_now "''in.json''"]
    unfolding eval .
qed

text \<open>The theorem at the ladder: one BLOCKED record before the first FAIL and one after it.\<close>

theorem blocked_before_fail_counted_witness:
  "\<exists>ls. lines ex_lib ex_now ''in.json'' (JArr (map JObj ex_ladder)) = Inr ls
     \<and> ''- Downstream blocked: 2 test(s)'' \<in> set (section_body ''## Root cause'' ls)"
proof -
  have pre: "\<forall>x\<in>set ex_pre. \<not> has_result ''FAIL'' x"
    by (simp add: ex_defs has_result_def dict_get_def)
  have r: "has_result ''FAIL'' ex_fail"
    by (simp add: ex_defs has_result_def dict_get_def)
  have early: "\<exists>x\<in>set ex_pre. has_result ''BLOCKED'' x"
    by (simp add: ex_defs has_result_def dict_get_def)
  have eval:
    "''- Downstream blocked: ''
       @ str_nat (length (filter (has_result ''BLOCKED'') ex_pre)
                  + length (filter (has_result ''BLOCKED'') ex_post)) @ '' test(s)''
     = ''- Downstream blocked: 2 test(s)''"
    by (simp add: ex_defs has_result_def dict_get_def str_nat.simps digit_def)
  show ?thesis
    using blocked_before_fail_counted [OF ex_ladder_ok ex_ladder_def pre r early, of ex_lib ex_now "''in.json''"]
    unfolding eval .
qed

text \<open>\<^bold>\<open>Claim C5\<close> does not hold of the code. For the input \<^verbatim>\<open>[{"result": "FAIL"}]\<close> the Root
  cause section shows \<^verbatim>\<open>- Test None\<close>: line 36 reads \<^verbatim>\<open>root_failure.get('test')\<close> with no
  default, while the matrix bullet of the same record, rendered by line 44 with
  \<^verbatim>\<open>r.get('test', '?')\<close>, shows \<^verbatim>\<open>- Test ?\<close>.\<close>

theorem root_cause_absent_test_prints_None:
  "lines lib now inp (JArr [JObj [(''result'', JStr ''FAIL'')]]) =
     Inr [''# Ladder Summary'',
          [],
          ''- Generated: '' @ now,
          ''- Input: `'' @ inp @ ''`'',
          [],
          ''## Outcome'',
          ''- PASS: 0'',
          ''- FAIL: 1'',
          ''- BLOCKED: 0'',
          [],
          ''## Root cause'',
          ''- Test None: `UNKNOWN`'',
          ''- Detail: '',
          [],
          ''## Test matrix'',
          ''- Test ?: FAIL | UNKNOWN | '']"
  by (simp add: lines_def py_iter_def counts_def root_cause_lines_def truthy_def matrix_line_def
      dict_get_def hashable_def py_format_def str_nat.simps digit_def)

section \<open>Runs of the script\<close>

lemma read_text_Inr: "read_text w p = Inr s \<longleftrightarrow> files w p = Some (Regular s)"
  by (simp add: read_text_def split: option.splits node.splits)

lemma write_text_Inr:
  "write_text w p s = Inr w' \<longleftrightarrow>
     files w p \<noteq> Some Directory \<and> w' = w\<lparr>files := (files w)(p \<mapsto> Regular s)\<rparr>"
  by (auto simp: write_text_def split: option.splits node.splits)

lemma main_Inr:
  assumes "main lib argv w = (Inr c, w')"
  obtains src doc ls where
    "files w (in_path lib argv) = Some (Regular src)"
    "json_loads lib src = Inr doc"
    "lines lib (clock w) (in_path lib argv) doc = Inr ls"
    "files w (out_path lib argv) \<noteq> Some Directory"
    "c = 0"
    "w' = w\<lparr>files := (files w)(out_path lib argv \<mapsto> Regular (join [nl] ls @ [nl])),
            stdout := stdout w @ [out_path lib argv]\<rparr>"
proof -
  from assms have c: "c = 0"
    and chain: "ebind (read_text w (in_path lib argv)) (\<lambda>text.
                 ebind (json_loads lib text) (\<lambda>doc.
                 ebind (lines lib (clock w) (in_path lib argv) doc) (\<lambda>ls.
                 ebind (write_text w (out_path lib argv) (join [nl] ls @ [nl])) (\<lambda>w'.
                   Inr (w'\<lparr>stdout := stdout w' @ [out_path lib argv]\<rparr>))))) = Inr w'"
    by (simp_all add: main_def split: if_splits sum.splits)
  from chain obtain src where src: "read_text w (in_path lib argv) = Inr src"
    and chain1: "ebind (json_loads lib src) (\<lambda>doc.
                 ebind (lines lib (clock w) (in_path lib argv) doc) (\<lambda>ls.
                 ebind (write_text w (out_path lib argv) (join [nl] ls @ [nl])) (\<lambda>w'.
                   Inr (w'\<lparr>stdout := stdout w' @ [out_path lib argv]\<rparr>)))) = Inr w'"
    unfolding ebind_eq_Inr [of "read_text w (in_path lib argv)"] by blast
  from chain1 obtain doc where doc: "json_loads lib src = Inr doc"
    and chain2: "ebind (lines lib (clock w) (in_path lib argv) doc) (\<lambda>ls.
                 ebind (write_text w (out_path lib argv) (join [nl] ls @ [nl])) (\<lambda>w'.
                   Inr (w'\<lparr>stdout := stdout w' @ [out_path lib argv]\<rparr>))) = Inr w'"
    unfolding ebind_eq_Inr [of "json_loads lib src"] by blast
  from chain2 obtain ls where ls: "lines lib (clock w) (in_path lib argv) doc = Inr ls"
    and chain3: "ebind (write_text w (out_path lib argv) (join [nl] ls @ [nl])) (\<lambda>w'.
                   Inr (w'\<lparr>stdout := stdout w' @ [out_path lib argv]\<rparr>)) = Inr w'"
    unfolding ebind_eq_Inr [of "lines lib (clock w) (in_path lib argv) doc"] by blast
  from chain3 obtain w1 where w1: "write_text w (out_path lib argv) (join [nl] ls @ [nl]) = Inr w1"
    and w': "w' = w1\<lparr>stdout := stdout w1 @ [out_path lib argv]\<rparr>"
    unfolding ebind_eq_Inr [of "write_text w (out_path lib argv) (join [nl] ls @ [nl])"] by auto
  from w1 have nd: "files w (out_path lib argv) \<noteq> Some Directory"
    and w1_eq: "w1 = w\<lparr>files := (files w)(out_path lib argv \<mapsto> Regular (join [nl] ls @ [nl]))\<rparr>"
    unfolding write_text_Inr by simp_all
  from src have f: "files w (in_path lib argv) = Some (Regular src)"
    unfolding read_text_Inr .
  have "w' = w\<lparr>files := (files w)(out_path lib argv \<mapsto> Regular (join [nl] ls @ [nl])),
            stdout := stdout w @ [out_path lib argv]\<rparr>"
    unfolding w' w1_eq by simp
  with f doc ls nd c show thesis
    by (rule that)
qed

lemma main_runs:
  assumes "files w (in_path lib argv) = Some (Regular src)"
    and "json_loads lib src = Inr doc"
    and "lines lib (clock w) (in_path lib argv) doc = Inr ls"
    and "files w (out_path lib argv) \<noteq> Some Directory"
  shows "main lib argv w =
     (Inr 0, w\<lparr>files := (files w)(out_path lib argv \<mapsto> Regular (join [nl] ls @ [nl])),
               stdout := stdout w @ [out_path lib argv]\<rparr>)"
  using assms
  by (auto simp: main_def read_text_def write_text_def path_exists_def
      split: option.splits node.splits)

text \<open>\<^bold>\<open>Claim C6\<close>. When the input path does not exist, the process ends with status 1, the
  message \<^verbatim>\<open>Input not found:\<close> followed by the path is the one thing added to standard
  error, no file is written or changed, and nothing is printed to standard output.\<close>

theorem missing_input_fails:
  assumes "files w (in_path lib argv) = None"
  shows "fst (script lib argv w) = 1
     \<and> stderr (snd (script lib argv w))
         = stderr w @ [Message (''Input not found: '' @ in_path lib argv)]
     \<and> files (snd (script lib argv w)) = files w
     \<and> stdout (snd (script lib argv w)) = stdout w"
  using assms by (simp add: script_def main_def path_exists_def)

text \<open>The theorem for a missing \<^verbatim>\<open>missing.json\<close>: the older summary at the output path stays.\<close>

theorem missing_input_fails_witness:
  "fst (script ex_lib ex_argv_missing ex_world) = 1
     \<and> stderr (snd (script ex_lib ex_argv_missing ex_world))
         = [Message ''Input not found: missing.json'']
     \<and> files (snd (script ex_lib ex_argv_missing ex_world)) ''out.md''
         = Some (Regular ''old summary'')
     \<and> files (snd (script ex_lib ex_argv_missing ex_world)) = files ex_world
     \<and> stdout (snd (script ex_lib ex_argv_missing ex_world)) = []"
proof -
  have p: "in_path ex_lib ex_argv_missing = ''missing.json''"
    by (simp add: in_path_def ex_lib_def ex_argv_missing_def)
  have missing: "files ex_world (in_path ex_lib ex_argv_missing) = None"
    unfolding p by (simp add: ex_world_def)
  have old: "files ex_world ''out.md'' = Some (Regular ''old summary'')"
    and quiet: "stdout ex_world = []" "stderr ex_world = []"
    by (simp_all add: ex_world_def)
  from missing_input_fails [OF missing] show ?thesis
    unfolding p by (simp add: old quiet)
qed

lemma matrix_lines_nonempty: "matrix_lines lib rows = Inr mx \<Longrightarrow> [] \<notin> set mx"
  by (induction rows arbitrary: mx) (auto simp: ebind_eq_Inr matrix_line_def)

lemma lines_shape:
  assumes "lines lib now inp doc = Inr ls"
  obtains cnt rc mx where
    "ls = [''# Ladder Summary'', [], ''- Generated: '' @ now, ''- Input: `'' @ inp @ ''`'', [],
           ''## Outcome'',
           ''- PASS: '' @ str_nat (counter_get cnt (JStr ''PASS'') 0),
           ''- FAIL: '' @ str_nat (counter_get cnt (JStr ''FAIL'') 0),
           ''- BLOCKED: '' @ str_nat (counter_get cnt (JStr ''BLOCKED'') 0),
           []] @ rc @ [''## Test matrix''] @ mx"
    "[] \<notin> set mx"
    "\<And>now'. lines lib now' inp doc =
       Inr ([''# Ladder Summary'', [], ''- Generated: '' @ now', ''- Input: `'' @ inp @ ''`'', [],
           ''## Outcome'',
           ''- PASS: '' @ str_nat (counter_get cnt (JStr ''PASS'') 0),
           ''- FAIL: '' @ str_nat (counter_get cnt (JStr ''FAIL'') 0),
           ''- BLOCKED: '' @ str_nat (counter_get cnt (JStr ''BLOCKED'') 0),
           []] @ rc @ [''## Test matrix''] @ mx)"
proof -
  from assms obtain rows cnt rf bl rc mx where
    steps: "py_iter doc = Inr rows" "counts rows = Inr cnt" "root_failure rows = Inr rf"
      "blocked rows = Inr bl" "root_cause_lines lib rf bl = Inr rc" "matrix_lines lib rows = Inr mx"
    and ls: "ls = [''# Ladder Summary'', [], ''- Generated: '' @ now, ''- Input: `'' @ inp @ ''`'', [],
           ''## Outcome'',
           ''- PASS: '' @ str_nat (counter_get cnt (JStr ''PASS'') 0),
           ''- FAIL: '' @ str_nat (counter_get cnt (JStr ''FAIL'') 0),
           ''- BLOCKED: '' @ str_nat (counter_get cnt (JStr ''BLOCKED'') 0),
           []] @ rc @ [''## Test matrix''] @ mx"
    unfolding lines_def ebind_eq_Inr by auto
  from steps(6) have mx: "[] \<notin> set mx" by (rule matrix_lines_nonempty)
  have other: "lines lib now' inp doc =
       Inr ([''# Ladder Summary'', [], ''- Generated: '' @ now', ''- Input: `'' @ inp @ ''`'', [],
           ''## Outcome'',
           ''- PASS: '' @ str_nat (counter_get cnt (JStr ''PASS'') 0),
           ''- FAIL: '' @ str_nat (counter_get cnt (JStr ''FAIL'') 0),
           ''- BLOCKED: '' @ str_nat (counter_get cnt (JStr ''BLOCKED'') 0),
           []] @ rc @ [''## Test matrix''] @ mx)" for now'
    by (simp add: lines_def steps)
  show thesis by (rule that [OF ls mx other])
qed

lemma lines_last_nonempty:
  assumes "lines lib now inp doc = Inr ls"
  shows "ls \<noteq> [] \<and> last ls \<noteq> []"
proof -
  from assms obtain cnt rc mx where
    ls: "ls = [''# Ladder Summary'', [], ''- Generated: '' @ now, ''- Input: `'' @ inp @ ''`'', [],
           ''## Outcome'',
           ''- PASS: '' @ str_nat (counter_get cnt (JStr ''PASS'') 0),
           ''- FAIL: '' @ str_nat (counter_get cnt (JStr ''FAIL'') 0),
           ''- BLOCKED: '' @ str_nat (counter_get cnt (JStr ''BLOCKED'') 0),
           []] @ rc @ [''## Test matrix''] @ mx"
    and mx: "[] \<notin> set mx"
    by (rule lines_shape) blast
  show ?thesis
  proof (cases "mx = []")
    case True
    with ls show ?thesis by simp
  next
    case False
    then have "last mx \<in> set mx" by simp
    with mx have "last mx \<noteq> []" by metis
    with False ls show ?thesis by simp
  qed
qed

lemma lines_clock:
  assumes "lines lib now inp doc = Inr ls"
  shows "lines lib now' inp doc = Inr (ls[2 := ''- Generated: '' @ now'])
     \<and> 2 < length ls \<and> ls ! 2 = ''- Generated: '' @ now"
proof -
  from assms obtain cnt rc mx where
    ls: "ls = [''# Ladder Summary'', [], ''- Generated: '' @ now, ''- Input: `'' @ inp @ ''`'', [],
           ''## Outcome'',
           ''- PASS: '' @ str_nat (counter_get cnt (JStr ''PASS'') 0),
           ''- FAIL: '' @ str_nat (counter_get cnt (JStr ''FAIL'') 0),
           ''- BLOCKED: '' @ str_nat (counter_get cnt (JStr ''BLOCKED'') 0),
           []] @ rc @ [''## Test matrix''] @ mx"
    and other: "\<And>now'. lines lib now' inp doc =
       Inr ([''# Ladder Summary'', [], ''- Generated: '' @ now', ''- Input: `'' @ inp @ ''`'', [],
           ''## Outcome'',
           ''- PASS: '' @ str_nat (counter_get cnt (JStr ''PASS'') 0),
           ''- FAIL: '' @ str_nat (counter_get cnt (JStr ''FAIL'') 0),
           ''- BLOCKED: '' @ str_nat (counter_get cnt (JStr ''BLOCKED'') 0),
           []] @ rc @ [''## Test matrix''] @ mx)"
    by (rule lines_shape) blast
  show ?thesis
    unfolding other [of now'] ls by simp
qed

lemma join_nonempty: "ls \<noteq> [] \<Longrightarrow> last ls \<noteq> [] \<Longrightarrow> join sep ls \<noteq> []"
  by (induction sep ls rule: join.induct) simp_all

lemma last_join: "ls \<noteq> [] \<Longrightarrow> last ls \<noteq> [] \<Longrightarrow> last (join sep ls) = last (last ls)"
  by (induction sep ls rule: join.induct) (simp_all add: join_nonempty)

text \<open>\<^bold>\<open>Claim C8\<close>, amended. When \<^verbatim>\<open>main\<close> returns, the exit status is 0 and the world differs
  from the one before in two places only: the output path holds the rendered lines joined
  by line feeds and followed by one more line feed, and standard output has the output path
  as one more line. The text before that final line feed ends with a line feed exactly when
  the last rendered line does, so the file ends with exactly one line feed unless the last
  rendered line ends with one.\<close>

theorem successful_run_effects:
  assumes "main lib argv w = (Inr c, w')"
  shows "script lib argv w = (0, w')
     \<and> (\<exists>src doc ls.
           files w (in_path lib argv) = Some (Regular src)
         \<and> json_loads lib src = Inr doc
         \<and> lines lib (clock w) (in_path lib argv) doc = Inr ls
         \<and> w' = w\<lparr>files := (files w)(out_path lib argv \<mapsto> Regular (join [nl] ls @ [nl])),
                  stdout := stdout w @ [out_path lib argv]\<rparr>
         \<and> (last (join [nl] ls) = nl \<longleftrightarrow> last (last ls) = nl))"
proof -
  from assms obtain src doc ls where
    src: "files w (in_path lib argv) = Some (Regular src)"
    and doc: "json_loads lib src = Inr doc"
    and ls: "lines lib (clock w) (in_path lib argv) doc = Inr ls"
    and c: "c = 0"
    and w': "w' = w\<lparr>files := (files w)(out_path lib argv \<mapsto> Regular (join [nl] ls @ [nl])),
                  stdout := stdout w @ [out_path lib argv]\<rparr>"
    by (rule main_Inr)
  from assms c have "script lib argv w = (0, w')"
    by (simp add: script_def)
  moreover from lines_last_nonempty [OF ls] have "last (join [nl] ls) = last (last ls)"
    by (simp add: last_join)
  ultimately show ?thesis
    using src doc ls w' by auto
qed

text \<open>The theorem at the run over \<open>ex_text\<close>, which replaces the older summary.\<close>

theorem successful_run_effects_witness:
  "script ex_lib ex_argv ex_world
     = (0, ex_world\<lparr>files := (files ex_world)(''out.md'' \<mapsto> Regular
              (join [nl]
                 [''# Ladder Summary'',
                  [],
                  ''- Generated: 2026-01-01T00:00:00+00:00'',
                  ''- Input: `in.json`'',
                  [],
                  ''## Outcome'',
                  ''- PASS: 1'',
                  ''- FAIL: 0'',
                  ''- BLOCKED: 0'',
                  [],
                  ''## Test matrix'',
                  ''- Test t1: PASS | UNKNOWN | ''] @ [nl])),
            stdout := [''out.md'']\<rparr>)"
proof -
  have ls: "lines ex_lib ex_now ''in.json'' ex_doc =
      Inr [''# Ladder Summary'',
           [],
           ''- Generated: 2026-01-01T00:00:00+00:00'',
           ''- Input: `in.json`'',
           [],
           ''## Outcome'',
           ''- PASS: 1'',
           ''- FAIL: 0'',
           ''- BLOCKED: 0'',
           [],
           ''## Test matrix'',
           ''- Test t1: PASS | UNKNOWN | '']"
    by (simp add: ex_doc_def ex_now_def lines_def py_iter_def counts_def root_cause_lines_def
        truthy_def matrix_line_def dict_get_def hashable_def py_format_def str_nat.simps digit_def)
  have paths: "in_path ex_lib ex_argv = ''in.json''" "out_path ex_lib ex_argv = ''out.md''"
    by (simp_all add: in_path_def out_path_def ex_lib_def ex_argv_def)
  have run: "main ex_lib ex_argv ex_world
     = (Inr 0, ex_world\<lparr>files := (files ex_world)(''out.md'' \<mapsto> Regular
              (join [nl]
                 [''# Ladder Summary'',
                  [],
                  ''- Generated: 2026-01-01T00:00:00+00:00'',
                  ''- Input: `in.json`'',
                  [],
                  ''## Outcome'',
                  ''- PASS: 1'',
                  ''- FAIL: 0'',
                  ''- BLOCKED: 0'',
                  [],
                  ''## Test matrix'',
                  ''- Test t1: PASS | UNKNOWN | ''] @ [nl])),
            stdout := [''out.md'']\<rparr>)"
    using main_runs [of ex_world ex_lib ex_argv ex_text ex_doc, unfolded paths]
    by (simp add: ex_world_def ex_lib_def ls [unfolded ex_lib_def])
  from successful_run_effects [OF run] show ?thesis
    by simp
qed

text \<open>Claim C8 as stated fails for the input \<open>ex_text_nl\<close>, whose only record has a detail that
  ends with a line feed: the run succeeds and the file written ends with two line feeds.\<close>

theorem trailing_newline_counterexample:
  "main ex_lib ex_argv ex_world_nl
     = (Inr 0, ex_world_nl\<lparr>files := (files ex_world_nl)(''out.md'' \<mapsto> Regular ex_summary_nl),
                          stdout := [''out.md'']\<rparr>)
   \<and> drop (length ex_summary_nl - 2) ex_summary_nl = [nl, nl]"
proof -
  have ls: "lines ex_lib ex_now ''in.json'' ex_doc_nl =
      Inr [''# Ladder Summary'',
           [],
           ''- Generated: 2026-01-01T00:00:00+00:00'',
           ''- Input: `in.json`'',
           [],
           ''## Outcome'',
           ''- PASS: 0'',
           ''- FAIL: 0'',
           ''- BLOCKED: 0'',
           [],
           ''## Test matrix'',
           ''- Test ?: UNKNOWN | UNKNOWN | x'' @ [nl]]"
    by (simp add: ex_doc_nl_def ex_now_def lines_def py_iter_def counts_def root_cause_lines_def
        truthy_def matrix_line_def dict_get_def hashable_def py_format_def str_nat.simps digit_def)
  have paths: "in_path ex_lib ex_argv = ''in.json''" "out_path ex_lib ex_argv = ''out.md''"
    by (simp_all add: in_path_def out_path_def ex_lib_def ex_argv_def)
  have differ: "ex_text_nl \<noteq> ex_text"
    by (simp add: ex_text_nl_def ex_text_def)
  have run: "main ex_lib ex_argv ex_world_nl
     = (Inr 0, ex_world_nl\<lparr>files := (files ex_world_nl)(''out.md'' \<mapsto> Regular ex_summary_nl),
                          stdout := [''out.md'']\<rparr>)"
    using main_runs [of ex_world_nl ex_lib ex_argv ex_text_nl ex_doc_nl, unfolded paths]
    by (simp add: ex_world_nl_def ex_lib_def differ ls [unfolded ex_lib_def] ex_summary_nl_def)
  have "drop (length ex_summary_nl - 2) ex_summary_nl = [nl, nl]"
    by (simp add: ex_summary_nl_def)
  with run show ?thesis by simp
qed

text \<open>\<^bold>\<open>Claim C9\<close>. Take a run that succeeds in a world \<open>w1\<close> and a second world \<open>w2\<close> with the
  same content at the input path and an output path that can be written; the two worlds may
  differ in everything else. Then the run in \<open>w2\<close> succeeds too, and the lines it writes are
  those of the first run with the line at index 2, the \<^verbatim>\<open>- Generated:\<close> line, carrying the
  clock of \<open>w2\<close>. With equal clocks the two output files are equal.\<close>

theorem rerun_deterministic:
  assumes run1: "main lib argv w1 = (Inr c, w1')"
    and same_input: "files w2 (in_path lib argv) = files w1 (in_path lib argv)"
    and writable: "files w2 (out_path lib argv) \<noteq> Some Directory"
  shows "\<exists>w2' ls1 ls2. main lib argv w2 = (Inr c, w2')
      \<and> files w1' (out_path lib argv) = Some (Regular (join [nl] ls1 @ [nl]))
      \<and> files w2' (out_path lib argv) = Some (Regular (join [nl] ls2 @ [nl]))
      \<and> 2 < length ls1
      \<and> ls1 ! 2 = ''- Generated: '' @ clock w1
      \<and> ls2 = ls1[2 := ''- Generated: '' @ clock w2]
      \<and> (clock w2 = clock w1 \<longrightarrow> files w2' (out_path lib argv) = files w1' (out_path lib argv))"
proof -
  from run1 obtain src doc ls1 where
    src: "files w1 (in_path lib argv) = Some (Regular src)"
    and doc: "json_loads lib src = Inr doc"
    and ls1: "lines lib (clock w1) (in_path lib argv) doc = Inr ls1"
    and c: "c = 0"
    and w1': "w1' = w1\<lparr>files := (files w1)(out_path lib argv \<mapsto> Regular (join [nl] ls1 @ [nl])),
                  stdout := stdout w1 @ [out_path lib argv]\<rparr>"
    by (rule main_Inr)
  let ?ls2 = "ls1[2 := ''- Generated: '' @ clock w2]"
  let ?w2' = "w2\<lparr>files := (files w2)(out_path lib argv \<mapsto> Regular (join [nl] ?ls2 @ [nl])),
                  stdout := stdout w2 @ [out_path lib argv]\<rparr>"
  from lines_clock [OF ls1, of "clock w2"]
  have ls2: "lines lib (clock w2) (in_path lib argv) doc = Inr ?ls2"
    and len: "2 < length ls1" and gen: "ls1 ! 2 = ''- Generated: '' @ clock w1"
    by simp_all
  from src same_input have src2: "files w2 (in_path lib argv) = Some (Regular src)"
    by simp
  have run2: "main lib argv w2 = (Inr c, ?w2')"
    unfolding c using src2 doc ls2 writable by (rule main_runs)
  have out1: "files w1' (out_path lib argv) = Some (Regular (join [nl] ls1 @ [nl]))"
    unfolding w1' by simp
  have out2: "files ?w2' (out_path lib argv) = Some (Regular (join [nl] ?ls2 @ [nl]))"
    by simp
  have same: "clock w2 = clock w1 \<longrightarrow> files ?w2' (out_path lib argv) = files w1' (out_path lib argv)"
  proof
    assume "clock w2 = clock w1"
    with gen have "ls1[2 := ''- Generated: '' @ clock w2] = ls1[2 := ls1 ! 2]"
      by simp
    then have "ls1[2 := ''- Generated: '' @ clock w2] = ls1"
      by (simp only: list_update_id)
    then show "files ?w2' (out_path lib argv) = files w1' (out_path lib argv)"
      unfolding out1 out2 by simp
  qed
  from run2 out1 out2 len gen same show ?thesis
    by blast
qed

text \<open>The theorem at two runs over \<open>ex_text\<close> a month apart.\<close>

theorem rerun_deterministic_witness:
  "\<exists>w2' ls1 ls2. main ex_lib ex_argv ex_world_later = (Inr 0, w2')
      \<and> files (snd (main ex_lib ex_argv ex_world)) ''out.md'' = Some (Regular (join [nl] ls1 @ [nl]))
      \<and> files w2' ''out.md'' = Some (Regular (join [nl] ls2 @ [nl]))
      \<and> 2 < length ls1
      \<and> ls1 ! 2 = ''- Generated: 2026-01-01T00:00:00+00:00''
      \<and> ls2 = ls1[2 := ''- Generated: 2026-02-02T12:30:00+00:00'']"
proof -
  have ls: "lines ex_lib ex_now ''in.json'' ex_doc =
      Inr [''# Ladder Summary'',
           [],
           ''- Generated: 2026-01-01T00:00:00+00:00'',
           ''- Input: `in.json`'',
           [],
           ''## Outcome'',
           ''- PASS: 1'',
           ''- FAIL: 0'',
           ''- BLOCKED: 0'',
           [],
           ''## Test matrix'',
           ''- Test t1: PASS | UNKNOWN | '']"
    by (simp add: ex_doc_def ex_now_def lines_def py_iter_def counts_def root_cause_lines_def
        truthy_def matrix_line_def dict_get_def hashable_def py_format_def str_nat.simps digit_def)
  have paths: "in_path ex_lib ex_argv = ''in.json''" "out_path ex_lib ex_argv = ''out.md''"
    by (simp_all add: in_path_def out_path_def ex_lib_def ex_argv_def)
  have run: "main ex_lib ex_argv ex_world = (Inr 0, snd (main ex_lib ex_argv ex_world))"
    using main_runs [of ex_world ex_lib ex_argv ex_text ex_doc, unfolded paths]
    by (simp add: ex_world_def ex_lib_def ls [unfolded ex_lib_def])
  have same_input: "files ex_world_later (in_path ex_lib ex_argv) = files ex_world (in_path ex_lib ex_argv)"
    unfolding paths by (simp add: ex_world_later_def ex_world_def)
  have writable: "files ex_world_later (out_path ex_lib ex_argv) \<noteq> Some Directory"
    unfolding paths by (simp add: ex_world_later_def)
  have clocks: "clock ex_world = ''2026-01-01T00:00:00+00:00''"
      "clock ex_world_later = ''2026-02-02T12:30:00+00:00''"
    by (simp_all add: ex_world_def ex_world_later_def ex_now_def)
  from rerun_deterministic [OF run same_input writable] show ?thesis
    unfolding paths clocks by simp
qed

section \<open>The lines of the written document\<close>




lemma split_nl_nonempty: "split_nl t \<noteq> []"
  by (cases t) (simp_all split: list.splits)

lemma split_nl_append: "split_nl (a @ nl # rest) = split_nl a @ split_nl rest"
proof (induction a)
  case Nil
  then show ?case by simp
next
  case (Cons c cs)
  obtain l ls where "split_nl cs = l # ls"
    using split_nl_nonempty [of cs] by (cases "split_nl cs") simp_all
  with Cons show ?case by simp
qed

text \<open>The lines of the document are the pieces of the elements of \<^verbatim>\<open>lines\<close>, in order.\<close>

lemma doc_lines_pieces:
  "ls \<noteq> [] \<Longrightarrow> doc_lines (join [nl] ls @ [nl]) = concat (map split_nl ls)"
proof (induction "[nl]" ls rule: join.induct)
  case 1
  then show ?case by simp
next
  case (2 x)
  then show ?case using split_nl_append [of x "[]"] by (simp add: doc_lines_def)
next
  case (3 x y ys)
  then have "split_nl (join [nl] (y # ys) @ [nl]) \<noteq> []" by (simp add: split_nl_nonempty)
  with 3 show ?case
    using split_nl_append [of x "join [nl] (y # ys) @ [nl]"]
    by (simp add: doc_lines_def butlast_append)
qed

















end
